theory Spec2Isabelle
  imports Complex_Main "HOL-Library.Word" "HOL-Library.Monad_Syntax"
begin

unbundle bit_operations_syntax

section \<open>Numbers, samples and errors\<close>

text \<open>
  The program is TypeScript. Its \<^verbatim>\<open>number\<close> is an IEEE double and the entries of a
  \<^verbatim>\<open>Float32Array\<close> are single-precision values. Samples and rates are modelled as
  \<^typ>\<open>real\<close>: finite values without rounding. Counts, lengths and header fields are
  \<^typ>\<open>nat\<close>, millisecond clocks are \<^typ>\<open>int\<close>, bytes are \<^typ>\<open>8 word\<close>.
  The products formed by the WAV encoder (a single-precision value times \<open>32768\<close> or
  \<open>32767\<close>) are exact in double precision, so the encoder's arithmetic is the real one.
  A thrown exception or rejected promise is the \<open>Inl\<close> of a sum.
\<close>

type_synonym sample = real
type_synonym byte = "8 word"

datatype jsError =
    DOMException string   \<comment> \<open>a \<^verbatim>\<open>DOMException\<close>, with its \<^verbatim>\<open>name\<close>\<close>
  | OtherError            \<comment> \<open>any other thrown value\<close>

section \<open>audioUtils: conversion to a fixed-length 16 kHz mono WAV\<close>

definition TARGET_SAMPLE_RATE :: nat where
  "TARGET_SAMPLE_RATE = 16000"

definition TARGET_DURATION_MS :: nat where
  "TARGET_DURATION_MS = 2000"

text \<open>The source divides numbers; \<open>1000\<close> divides the product, so \<open>div\<close> is exact here.\<close>

definition TARGET_SAMPLE_COUNT :: nat where
  "TARGET_SAMPLE_COUNT = (TARGET_SAMPLE_RATE * TARGET_DURATION_MS) div 1000"

text \<open>
  An \<^verbatim>\<open>AudioBuffer\<close>: its channels (each a \<^verbatim>\<open>Float32Array\<close> of \<open>bufferLength\<close> samples),
  its \<^verbatim>\<open>length\<close> in frames and its sample rate.
\<close>

record AudioBuffer =
  channels :: "sample list list"
  bufferLength :: nat
  sampleRate :: real

definition numberOfChannels :: "AudioBuffer \<Rightarrow> nat" where
  "numberOfChannels buffer = length (channels buffer)"

definition getChannelData :: "AudioBuffer \<Rightarrow> nat \<Rightarrow> jsError + sample list" where
  "getChannelData buffer index =
     (if index < numberOfChannels buffer then Inr (channels buffer ! index)
      else Inl (DOMException ''IndexSizeError''))"

definition mixToMono :: "AudioBuffer \<Rightarrow> jsError + sample list" where
  "mixToMono buffer =
     (if numberOfChannels buffer \<le> 1 then getChannelData buffer 0
      else Inr (map (\<lambda>frame. sum_list (map (\<lambda>channel. channel ! frame) (channels buffer))
                                / real (length (channels buffer)))
                    [0..<bufferLength buffer]))"

text \<open>
  The browser services used by the conversion are parameters:
  \<^item> \<open>audioContextDefined\<close>: \<^verbatim>\<open>window.AudioContext\<close> exists;
  \<^item> \<open>blobArrayBuffer\<close>: \<^verbatim>\<open>blob.arrayBuffer()\<close>;
  \<^item> \<open>decodeAudioData\<close>: \<^verbatim>\<open>audioContext.decodeAudioData\<close>;
  \<^item> \<open>renderOffline targetLength input rate\<close>: an \<^verbatim>\<open>OfflineAudioContext(1, targetLength, 16000)\<close>
    playing a one-channel buffer that holds \<open>input\<close> at \<open>rate\<close>, rendered to its end, channel 0 of
    the rendered buffer; \<open>Inl\<close> when one of the Web Audio calls throws;
  \<^item> \<open>closeContext\<close>: \<^verbatim>\<open>audioContext.close()\<close> in the \<^verbatim>\<open>finally\<close> block, \<open>Some e\<close> when it rejects.
\<close>

record 'blob AudioEnv =
  audioContextDefined :: bool
  blobArrayBuffer :: "'blob \<Rightarrow> jsError + byte list"
  decodeAudioData :: "byte list \<Rightarrow> jsError + AudioBuffer"
  renderOffline :: "int \<Rightarrow> sample list \<Rightarrow> real \<Rightarrow> jsError + sample list"
  closeContext :: "jsError option"

text \<open>The local constant \<^verbatim>\<open>targetLength\<close> of \<^verbatim>\<open>resampleTo16k\<close>; \<open>round\<close> is \<^verbatim>\<open>Math.round\<close>.\<close>

definition resampleTargetLength :: "nat \<Rightarrow> real \<Rightarrow> int" where
  "resampleTargetLength inputLength rate =
     max 1 (round ((real inputLength * real TARGET_SAMPLE_RATE) / rate))"

text \<open>
  At rate \<open>0\<close> the quotient is \<^verbatim>\<open>Infinity\<close> or \<^verbatim>\<open>NaN\<close>, which the constructor of the offline
  context converts to length \<open>0\<close> and refuses.
\<close>

definition resampleTo16k ::
  "(int \<Rightarrow> sample list \<Rightarrow> real \<Rightarrow> jsError + sample list) \<Rightarrow> sample list \<Rightarrow> real
     \<Rightarrow> jsError + sample list" where
  "resampleTo16k render input rate =
     (if rate = real TARGET_SAMPLE_RATE then Inr input
      else if rate = 0 then Inl (DOMException ''NotSupportedError'')
      else render (resampleTargetLength (length input) rate) input rate)"

subsection \<open>The WAV encoder\<close>

definition writeString :: "string \<Rightarrow> byte list" where
  "writeString value = map (\<lambda>c. of_nat (of_char c)) value"

text \<open>\<^verbatim>\<open>setUint16\<close> and \<^verbatim>\<open>setUint32\<close> reduce the value modulo the width; little-endian.\<close>

definition writeUint16 :: "nat \<Rightarrow> byte list" where
  "writeUint16 value =
     (let w = (of_nat value :: 16 word) in [ucast w, ucast (drop_bit 8 w)])"

definition writeUint32 :: "nat \<Rightarrow> byte list" where
  "writeUint32 value =
     (let w = (of_nat value :: 32 word)
      in [ucast w, ucast (drop_bit 8 w), ucast (drop_bit 16 w), ucast (drop_bit 24 w)])"

text \<open>\<^verbatim>\<open>setInt16\<close>: the number is truncated towards zero and reduced modulo \<open>2^16\<close>.\<close>

definition jsTruncate :: "real \<Rightarrow> int" where
  "jsTruncate x = (if x < 0 then \<lceil>x\<rceil> else \<lfloor>x\<rfloor>)"

definition setInt16 :: "real \<Rightarrow> byte list" where
  "setInt16 value =
     (let w = (word_of_int (jsTruncate value) :: 16 word) in [ucast w, ucast (drop_bit 8 w)])"

text \<open>The body of the sample loop.\<close>

definition clampSample :: "sample \<Rightarrow> real" where
  "clampSample s = max (- 1) (min 1 s)"

definition scaleSample :: "sample \<Rightarrow> real" where
  "scaleSample s =
     (let sample = clampSample s
      in if sample < 0 then sample * 32768 else sample * 32767)"

definition encodeSample :: "sample \<Rightarrow> byte list" where
  "encodeSample s = setInt16 (scaleSample s)"

definition wavHeader :: "nat \<Rightarrow> nat \<Rightarrow> byte list" where
  "wavHeader sampleCount rate =
     (let channelCount = 1;
          bytesPerSample = 2;
          byteRate = rate * channelCount * bytesPerSample;
          blockAlign = channelCount * bytesPerSample;
          dataSize = sampleCount * bytesPerSample
      in writeString ''RIFF'' @ writeUint32 (36 + dataSize) @ writeString ''WAVE''
         @ writeString ''fmt '' @ writeUint32 16 @ writeUint16 1 @ writeUint16 channelCount
         @ writeUint32 rate @ writeUint32 byteRate @ writeUint16 blockAlign @ writeUint16 16
         @ writeString ''data'' @ writeUint32 dataSize)"

definition encodeWavPcm16 :: "sample list \<Rightarrow> nat \<Rightarrow> byte list" where
  "encodeWavPcm16 samples rate =
     wavHeader (length samples) rate @ concat (map encodeSample samples)"

subsection \<open>Fixed length and the conversion\<close>

text \<open>
  \<^verbatim>\<open>new Float32Array(targetLength)\<close> is all zero; \<^verbatim>\<open>set(input.subarray(0, targetLength))\<close>
  overwrites its first \<open>min (length input) targetLength\<close> entries.
\<close>

definition normalizeToFixedSamples :: "sample list \<Rightarrow> nat \<Rightarrow> sample list" where
  "normalizeToFixedSamples input targetLength =
     (if length input = targetLength then input
      else take targetLength input @ replicate (targetLength - length input) 0)"

record WavConversionResult =
  blob :: "byte list"
  pcm :: "sample list"
  durationMs :: int
  resultSampleRate :: nat

definition convertBody :: "'blob AudioEnv \<Rightarrow> 'blob \<Rightarrow> jsError + WavConversionResult" where
  "convertBody env input =
     (case blobArrayBuffer env input of
        Inl e \<Rightarrow> Inl e
      | Inr arrayBuffer \<Rightarrow>
     (case decodeAudioData env arrayBuffer of
        Inl e \<Rightarrow> Inl e
      | Inr decodedBuffer \<Rightarrow>
     (case mixToMono decodedBuffer of
        Inl e \<Rightarrow> Inl e
      | Inr monoData \<Rightarrow>
     (case resampleTo16k (renderOffline env) monoData (sampleRate decodedBuffer) of
        Inl e \<Rightarrow> Inl e
      | Inr resampled \<Rightarrow>
          (let fixedLengthPcm = normalizeToFixedSamples resampled TARGET_SAMPLE_COUNT;
               wavBlob = encodeWavPcm16 fixedLengthPcm TARGET_SAMPLE_RATE
           in Inr \<lparr> blob = wavBlob,
                    pcm = fixedLengthPcm,
                    durationMs =
                      round ((real (length fixedLengthPcm) / real TARGET_SAMPLE_RATE) * 1000),
                    resultSampleRate = TARGET_SAMPLE_RATE \<rparr>)))))"

text \<open>
  \<^verbatim>\<open>getAudioContextCtor\<close> throws before the \<^verbatim>\<open>try\<close>; a rejection of \<^verbatim>\<open>close()\<close> in the
  \<^verbatim>\<open>finally\<close> block replaces the outcome of the body.
\<close>

definition convertBlobTo16kMonoWav ::
  "'blob AudioEnv \<Rightarrow> 'blob \<Rightarrow> jsError + WavConversionResult" where
  "convertBlobTo16kMonoWav env input =
     (if \<not> audioContextDefined env then Inl (DOMException ''NotSupportedError'')
      else case closeContext env of
             Some e \<Rightarrow> Inl e
           | None \<Rightarrow> convertBody env input)"

section \<open>gate: the speech gate\<close>

text \<open>
  The constants imported from \<^verbatim>\<open>./gateConfig\<close> are not among the sources: they are the
  fields of a parameter. Sizes are naturals, thresholds and the target rate are numbers.
\<close>

record GateConfig =
  BORDERLINE_QUIET_RMS_THRESHOLD :: real
  CLIP_LEVEL :: real
  CLIP_RATIO_THRESHOLD :: real
  EARLY_END_MS :: real
  FLATLINE_ABS_MAX_THRESHOLD :: real
  FLATLINE_RMS_THRESHOLD :: real
  FRAME_SIZE :: nat
  GATE_TARGET_SAMPLE_COUNT :: nat
  GATE_TARGET_SAMPLE_RATE :: real
  LATE_START_MS :: real
  MIN_SPEECH_SPAN_MS :: real
  NO_SPEECH_RATIO_THRESHOLD :: real
  PASS_SPEECH_RATIO_THRESHOLD :: real
  SPEECH_FRAME_RMS_THRESHOLD :: real
  TOO_QUIET_RMS_THRESHOLD :: real

datatype GateDecision = PASS | AMBIG | REJECT

datatype GateReason =
  TooQuiet | NoSpeech | Flatline | BorderlineQuiet | ClippingSuspected | SpeechOffCenter | Ok

text \<open>
  The user messages are fixed Korean string literals; each is named by the branch that returns it.
  The off-centre branch and the final fallback share the reason \<open>SpeechOffCenter\<close> and differ in
  their message.
\<close>

datatype UserMessage =
    MsgFlatline | MsgTooQuiet | MsgNoSpeech | MsgBorderlineQuiet | MsgClippingSuspected
  | MsgSpeechOffCenter | MsgOk | MsgFallback

record DebugMetrics =
  rms :: real
  absMax :: real
  clipRatio :: real
  speechRatio :: real
  firstSpeechMs :: "int option"
  lastSpeechMs :: "int option"

record GateResult =
  decision :: GateDecision
  reason :: GateReason
  userMessage :: UserMessage
  debugMetrics :: DebugMetrics

definition normalizePcmLength :: "GateConfig \<Rightarrow> sample list \<Rightarrow> sample list" where
  "normalizePcmLength cfg samples =
     (if length samples = GATE_TARGET_SAMPLE_COUNT cfg then samples
      else take (GATE_TARGET_SAMPLE_COUNT cfg) samples
           @ replicate (GATE_TARGET_SAMPLE_COUNT cfg - length samples) 0)"

definition buildResult ::
  "GateDecision \<Rightarrow> GateReason \<Rightarrow> UserMessage \<Rightarrow> DebugMetrics \<Rightarrow> GateResult" where
  "buildResult d r m metrics =
     \<lparr> decision = d, reason = r, userMessage = m, debugMetrics = metrics \<rparr>"

text \<open>
  A JavaScript division by zero raises nothing: it yields \<^verbatim>\<open>Infinity\<close> or \<^verbatim>\<open>NaN\<close>, which no
  real number stands for. The model makes the event visible: a division by zero is \<open>None\<close>,
  and so is every computation that goes through one. (With a frame size of zero the frame count
  of the source is \<^verbatim>\<open>Infinity\<close> or \<^verbatim>\<open>NaN\<close>, and in the first case its frame loop does not end.)
\<close>

definition jsDivide :: "real \<Rightarrow> real \<Rightarrow> real option" where
  "jsDivide x y = (if y = 0 then None else Some (x / y))"

text \<open>The first loop: sum of squares, peak and number of clipped samples.\<close>

fun sampleLoop :: "real \<Rightarrow> sample list \<Rightarrow> real \<times> real \<times> nat \<Rightarrow> real \<times> real \<times> nat" where
  "sampleLoop clipLevel [] acc = acc"
| "sampleLoop clipLevel (sample # rest) (sumSquares, peak, clippedCount) =
     (let absSample = \<bar>sample\<bar>
      in sampleLoop clipLevel rest
           (sumSquares + sample * sample,
            (if absSample > peak then absSample else peak),
            (if absSample > clipLevel then clippedCount + 1 else clippedCount)))"

text \<open>
  The inner loop of a frame. Its indices are below the length: the frames are counted by
  \<open>\<lfloor>length / FRAME_SIZE\<rfloor>\<close>.
\<close>

definition frameSquares :: "sample list \<Rightarrow> nat \<Rightarrow> nat \<Rightarrow> real" where
  "frameSquares samples start end =
     foldl (\<lambda>acc i. acc + (samples ! i) * (samples ! i)) 0 [start..<end]"

text \<open>
  One round of the frame loop on \<open>(speechFrameCount, firstSpeechFrame, lastSpeechFrame)\<close>.
  The loop is entered only with a non-zero \<open>FRAME_SIZE\<close> (the frame count is computed first).
\<close>

definition frameStep ::
  "GateConfig \<Rightarrow> sample list \<Rightarrow> nat \<times> int \<times> int \<Rightarrow> nat \<Rightarrow> nat \<times> int \<times> int" where
  "frameStep cfg samples st frame =
     (case st of (speechFrameCount, firstSpeechFrame, lastSpeechFrame) \<Rightarrow>
        let start = frame * FRAME_SIZE cfg;
            end = start + FRAME_SIZE cfg;
            frameRms = sqrt (frameSquares samples start end / real (FRAME_SIZE cfg))
        in if frameRms \<ge> SPEECH_FRAME_RMS_THRESHOLD cfg
           then (speechFrameCount + 1,
                 (if firstSpeechFrame = - 1 then int frame else firstSpeechFrame),
                 int frame)
           else (speechFrameCount, firstSpeechFrame, lastSpeechFrame))"

definition frameLoop :: "GateConfig \<Rightarrow> sample list \<Rightarrow> nat \<Rightarrow> nat \<times> int \<times> int" where
  "frameLoop cfg samples frameCount = foldl (frameStep cfg samples) (0, - 1, - 1) [0..<frameCount]"

definition speechSpanMs :: "DebugMetrics \<Rightarrow> int" where
  "speechSpanMs m =
     (case (firstSpeechMs m, lastSpeechMs m) of
        (Some firstMs, Some lastMs) \<Rightarrow> max 0 (lastMs - firstMs)
      | _ \<Rightarrow> 0)"

text \<open>The condition of the off-centre branch.\<close>

definition offCenter :: "GateConfig \<Rightarrow> DebugMetrics \<Rightarrow> bool" where
  "offCenter cfg m \<longleftrightarrow>
     (case firstSpeechMs m of None \<Rightarrow> False | Some firstMs \<Rightarrow> real_of_int firstMs > LATE_START_MS cfg)
     \<or> (case lastSpeechMs m of None \<Rightarrow> False | Some lastMs \<Rightarrow> real_of_int lastMs < EARLY_END_MS cfg)
     \<or> real_of_int (speechSpanMs m) < MIN_SPEECH_SPAN_MS cfg"

text \<open>The chain of \<^verbatim>\<open>if\<close> statements that ends the function, in the order of the source.\<close>

definition gateDecision :: "GateConfig \<Rightarrow> DebugMetrics \<Rightarrow> GateResult" where
  "gateDecision cfg m =
     (if absMax m < FLATLINE_ABS_MAX_THRESHOLD cfg \<and> rms m < FLATLINE_RMS_THRESHOLD cfg
        then buildResult REJECT Flatline MsgFlatline m
      else if rms m < TOO_QUIET_RMS_THRESHOLD cfg
        then buildResult REJECT TooQuiet MsgTooQuiet m
      else if speechRatio m < NO_SPEECH_RATIO_THRESHOLD cfg
        then buildResult REJECT NoSpeech MsgNoSpeech m
      else if rms m < BORDERLINE_QUIET_RMS_THRESHOLD cfg
        then buildResult AMBIG BorderlineQuiet MsgBorderlineQuiet m
      else if clipRatio m > CLIP_RATIO_THRESHOLD cfg
        then buildResult AMBIG ClippingSuspected MsgClippingSuspected m
      else if offCenter cfg m
        then buildResult AMBIG SpeechOffCenter MsgSpeechOffCenter m
      else if speechRatio m \<ge> PASS_SPEECH_RATIO_THRESHOLD cfg
              \<and> rms m \<ge> BORDERLINE_QUIET_RMS_THRESHOLD cfg
        then buildResult PASS Ok MsgOk m
      else buildResult AMBIG SpeechOffCenter MsgFallback m)"

text \<open>The metrics, up to the record \<^verbatim>\<open>debugMetrics\<close>; \<open>None\<close> when a division by zero occurs.\<close>

definition gateMetrics :: "GateConfig \<Rightarrow> sample list \<Rightarrow> real \<Rightarrow> DebugMetrics option" where
  "gateMetrics cfg samples rate =
     (let normalizedPcm = normalizePcmLength cfg samples;
          actualSampleRate = (if rate > 0 then rate else GATE_TARGET_SAMPLE_RATE cfg);
          (sumSquares, peak, clippedCount) = sampleLoop (CLIP_LEVEL cfg) normalizedPcm (0, 0, 0)
      in do {
        meanSquare \<leftarrow> jsDivide sumSquares (real (length normalizedPcm));
        clipRatio' \<leftarrow> jsDivide (real clippedCount) (real (length normalizedPcm));
        frames \<leftarrow> jsDivide (real (length normalizedPcm)) (real (FRAME_SIZE cfg));
        let frameCount = nat \<lfloor>frames\<rfloor>;
        let (speechFrameCount, firstSpeechFrame, lastSpeechFrame) =
              frameLoop cfg normalizedPcm frameCount;
        speechRatio' \<leftarrow> (if frameCount > 0
                          then jsDivide (real speechFrameCount) (real frameCount) else Some 0);
        frameSeconds \<leftarrow> jsDivide (real (FRAME_SIZE cfg)) actualSampleRate;
        let frameMs = frameSeconds * 1000;
        Some \<lparr> rms = sqrt meanSquare,
               absMax = peak,
               clipRatio = clipRatio',
               speechRatio = speechRatio',
               firstSpeechMs = (if firstSpeechFrame = - 1 then None
                                else Some (round (real_of_int firstSpeechFrame * frameMs))),
               lastSpeechMs = (if lastSpeechFrame = - 1 then None
                               else Some (round (real_of_int (lastSpeechFrame + 1) * frameMs))) \<rparr>
      })"

definition analyzePcmForSpeechGate ::
  "GateConfig \<Rightarrow> sample list \<Rightarrow> real \<Rightarrow> GateResult option" where
  "analyzePcmForSpeechGate cfg samples rate =
     map_option (gateDecision cfg) (gateMetrics cfg samples rate)"

section \<open>useRecorder: the capture session\<close>

text \<open>
  The hook's React state and its mutable references form one record. A state setter is an
  immediate update; the status that \<^verbatim>\<open>startRecording\<close> reads is the status of the session.
  Streams and object URLs are handles (numbers), a chunk is a list of bytes. The effects on the
  outside world that the hook performs are recorded too: the streams whose tracks were stopped
  and the object URLs that were revoked.
\<close>

datatype RecorderStatus =
    Idle | Requesting | Ready | Recording | Processing | Result | DurationRejected
  | MicDenied | Unsupported | Error

record Recorder =
  recorderStream :: nat
  active :: bool            \<comment> \<open>\<^verbatim>\<open>recorder.state\<close> differs from \<^verbatim>\<open>'inactive'\<close>\<close>

record Session =
  status :: RecorderStatus
  stream :: "nat option"
  audioBlob :: "byte list option"
  audioUrl :: "nat option"
  errorName :: "string option"
  elapsedMs :: int
  measuredDurationMs :: "int option"
  gateResult :: "GateResult option"
  outputSampleRate :: "nat option"
  mediaRecorder :: "Recorder option"
  chunks :: "byte list list"
  timerArmed :: bool                         \<comment> \<open>\<^verbatim>\<open>timerRef.current !== null\<close>\<close>
  autoStopArmed :: bool                      \<comment> \<open>\<^verbatim>\<open>autoStopRef.current !== null\<close>\<close>
  startedAt :: "int option"
  audioUrlRef :: "nat option"
  lastMicRequestFailure :: "string option"
  mounted :: bool
  stoppedStreams :: "nat list"
  revokedUrls :: "nat list"

text \<open>
  What the browser answers during one call of \<^verbatim>\<open>startRecording\<close>:
  \<^item> \<open>getUserMediaDefined\<close>, \<open>mediaRecorderDefined\<close>: the two capabilities exist;
  \<^item> \<open>micOutcome\<close>: how the race between \<^verbatim>\<open>getUserMedia\<close> and the 30000 ms timeout ends;
  \<^item> \<open>recorderCtorError\<close>, \<open>recorderStartError\<close>: what \<^verbatim>\<open>new MediaRecorder\<close> and
    \<^verbatim>\<open>recorder.start()\<close> throw, if anything;
  \<^item> \<open>dateNow\<close>: \<^verbatim>\<open>Date.now()\<close> after the recorder has started.
\<close>

datatype MicOutcome = Granted nat | TimedOut | Rejected jsError

record RecorderEnv =
  getUserMediaDefined :: bool
  mediaRecorderDefined :: bool
  micOutcome :: MicOutcome
  recorderCtorError :: "jsError option"
  recorderStartError :: "jsError option"
  dateNow :: int

definition MIC_REQUEST_TIMEOUT_MS :: nat where
  "MIC_REQUEST_TIMEOUT_MS = 30000"

definition clearTimer :: "Session \<Rightarrow> Session" where
  "clearTimer s = s\<lparr> timerArmed := False, startedAt := None \<rparr>"

definition clearAutoStop :: "Session \<Rightarrow> Session" where
  "clearAutoStop s = s\<lparr> autoStopArmed := False \<rparr>"

definition clearAudioUrl :: "Session \<Rightarrow> Session" where
  "clearAudioUrl s =
     (case audioUrlRef s of
        None \<Rightarrow> s
      | Some url \<Rightarrow> s\<lparr> revokedUrls := revokedUrls s @ [url], audioUrlRef := None \<rparr>)"

definition stopAndReleaseStream :: "nat option \<Rightarrow> Session \<Rightarrow> Session" where
  "stopAndReleaseStream target s =
     (case target of
        None \<Rightarrow> s
      | Some t \<Rightarrow> s\<lparr> stoppedStreams := stoppedStreams s @ [t] \<rparr>)"

text \<open>The name the handlers report for a caught value.\<close>

definition errorNameOf :: "string \<Rightarrow> jsError \<Rightarrow> string" where
  "errorNameOf fallback e = (case e of DOMException name \<Rightarrow> name | OtherError \<Rightarrow> fallback)"

definition requestMicAccess :: "RecorderEnv \<Rightarrow> Session \<Rightarrow> nat option \<times> Session" where
  "requestMicAccess env s0 =
     (let s = s0\<lparr> lastMicRequestFailure := None \<rparr>
      in if \<not> getUserMediaDefined env \<or> \<not> mediaRecorderDefined env
         then (None, s\<lparr> lastMicRequestFailure := Some ''unsupported_api'',
                         status := Unsupported,
                         errorName := Some ''NotSupportedError'' \<rparr>)
         else
           (let s1 = s\<lparr> status := Requesting, errorName := None \<rparr>
            in case micOutcome env of
                 TimedOut \<Rightarrow>
                   (None, s1\<lparr> lastMicRequestFailure := Some ''permission_timeout'',
                               errorName := Some ''PermissionTimeoutError'',
                               status := Error \<rparr>)
               | Granted newStream \<Rightarrow>
                   (if \<not> mounted s1
                    then (None, stopAndReleaseStream (Some newStream)
                                  (s1\<lparr> lastMicRequestFailure := Some ''resolved_after_unmount'' \<rparr>))
                    else (Some newStream,
                          (stopAndReleaseStream (stream s1) s1)
                            \<lparr> stream := Some newStream, status := Ready \<rparr>))
               | Rejected e \<Rightarrow>
                   (if \<not> mounted s1
                    then (None, s1\<lparr> lastMicRequestFailure := Some ''failed_after_unmount'' \<rparr>)
                    else (let name = errorNameOf ''UnknownError'' e
                          in (None, s1\<lparr> lastMicRequestFailure := Some (''request_error:'' @ name),
                                        errorName := Some name,
                                        status := MicDenied \<rparr>)))))"

definition stopRecorderSafely :: "Session \<Rightarrow> Session" where
  "stopRecorderSafely s =
     (case mediaRecorder s of
        None \<Rightarrow> s
      | Some recorder \<Rightarrow>
          if \<not> active recorder then s
          else s\<lparr> mediaRecorder := Some (recorder\<lparr> active := False \<rparr>) \<rparr>)"

text \<open>The \<^verbatim>\<open>catch\<close> block of \<^verbatim>\<open>startRecording\<close>.\<close>

definition startFailed :: "jsError \<Rightarrow> Session \<Rightarrow> Session" where
  "startFailed e s =
     (if \<not> mounted s then s
      else clearAutoStop (clearTimer
             (s\<lparr> errorName := Some (errorNameOf ''UnknownError'' e), status := Error \<rparr>)))"

text \<open>
  The \<^verbatim>\<open>try\<close> block of \<^verbatim>\<open>startRecording\<close>: everything of the previous cycle is cleared, the
  recorder is created and started, the two timers are armed.
\<close>

definition beginRecording :: "RecorderEnv \<Rightarrow> nat \<Rightarrow> Session \<Rightarrow> Session" where
  "beginRecording env activeStream s =
     (let s1 = clearAutoStop (clearTimer s);
          s2 = s1\<lparr> elapsedMs := 0, measuredDurationMs := None, gateResult := None,
                    outputSampleRate := None, audioBlob := None \<rparr>;
          s3 = (clearAudioUrl s2)\<lparr> audioUrl := None, chunks := [], errorName := None \<rparr>
      in case recorderCtorError env of
           Some e \<Rightarrow> startFailed e s3
         | None \<Rightarrow>
             (let s4 = s3\<lparr> mediaRecorder :=
                             Some \<lparr> recorderStream = activeStream, active = False \<rparr> \<rparr>
              in case recorderStartError env of
                   Some e \<Rightarrow> startFailed e s4
                 | None \<Rightarrow>
                     s4\<lparr> mediaRecorder :=
                           Some \<lparr> recorderStream = activeStream, active = True \<rparr>,
                         startedAt := Some (dateNow env),
                         status := Recording,
                         timerArmed := True,
                         autoStopArmed := True \<rparr>))"

definition startRecording :: "RecorderEnv \<Rightarrow> Session \<Rightarrow> Session" where
  "startRecording env s =
     (if status s = Requesting \<or> status s = Recording then s
      else
        (let (activeStream, s1) =
               (case stream s of
                  Some st \<Rightarrow> (Some st, s)
                | None \<Rightarrow> requestMicAccess env s)
         in case activeStream of
              None \<Rightarrow> s1
            | Some st \<Rightarrow>
                if \<not> mediaRecorderDefined env
                then s1\<lparr> status := Unsupported, errorName := Some ''NotSupportedError'' \<rparr>
                else beginRecording env st s1))"

text \<open>
  The callback of the 100 ms interval, run at clock reading \<open>now\<close>. It runs only while the
  interval is armed; \<^verbatim>\<open>!startedAtRef.current\<close> holds for \<^verbatim>\<open>null\<close> and for \<open>0\<close>.
\<close>

definition timerTick :: "int \<Rightarrow> int \<Rightarrow> Session \<Rightarrow> Session" where
  "timerTick maxDurationMs now s =
     (if \<not> timerArmed s then s
      else case startedAt s of
             None \<Rightarrow> s
           | Some t \<Rightarrow>
               if t = 0 then s
               else (let elapsed = now - t
                     in s\<lparr> elapsedMs := min elapsed maxDurationMs \<rparr>))"

text \<open>The callback of the one-shot timeout, run only while it is armed.\<close>

definition autoStopFired :: "int \<Rightarrow> Session \<Rightarrow> Session" where
  "autoStopFired maxDurationMs s =
     (if \<not> autoStopArmed s then s
      else stopRecorderSafely (s\<lparr> elapsedMs := maxDurationMs \<rparr>))"

text \<open>
  The three operations that write \<open>elapsedMs\<close>, as events of a session configured with
  \<open>maxDurationMs\<close>; a run applies a list of them in order. Any list is a run, which covers every
  order in which the event loop can deliver the calls and the timer callbacks.
\<close>

datatype SessionEvent = Start RecorderEnv | Tick int | AutoStop

fun sessionStep :: "int \<Rightarrow> Session \<Rightarrow> SessionEvent \<Rightarrow> Session" where
  "sessionStep maxDurationMs s (Start env) = startRecording env s"
| "sessionStep maxDurationMs s (Tick now) = timerTick maxDurationMs now s"
| "sessionStep maxDurationMs s AutoStop = autoStopFired maxDurationMs s"

definition sessionRun :: "int \<Rightarrow> Session \<Rightarrow> SessionEvent list \<Rightarrow> Session" where
  "sessionRun maxDurationMs s events = foldl (sessionStep maxDurationMs) s events"

text \<open>The state of a freshly mounted hook.\<close>

definition initialSession :: Session where
  "initialSession =
     \<lparr> status = Idle, stream = None, audioBlob = None, audioUrl = None, errorName = None,
       elapsedMs = 0, measuredDurationMs = None, gateResult = None, outputSampleRate = None,
       mediaRecorder = None, chunks = [], timerArmed = False, autoStopArmed = False,
       startedAt = None, audioUrlRef = None, lastMicRequestFailure = None, mounted = True,
       stoppedStreams = [], revokedUrls = [] \<rparr>"

section \<open>Reading a WAV file back\<close>

text \<open>
  The readers of a \<^verbatim>\<open>DataView\<close> that mirror the writers of the encoder: little-endian
  unsigned 16 and 32 bit fields and a signed 16 bit sample at a byte offset.
\<close>

definition getUint16 :: "byte list \<Rightarrow> nat \<Rightarrow> nat" where
  "getUint16 bytes offset = unat (word_cat (bytes ! (offset + 1)) (bytes ! offset) :: 16 word)"

definition getUint32 :: "byte list \<Rightarrow> nat \<Rightarrow> nat" where
  "getUint32 bytes offset =
     unat (word_cat (word_cat (bytes ! (offset + 3)) (bytes ! (offset + 2)) :: 16 word)
                    (word_cat (bytes ! (offset + 1)) (bytes ! offset) :: 16 word) :: 32 word)"

definition getInt16 :: "byte list \<Rightarrow> nat \<Rightarrow> int" where
  "getInt16 bytes offset = sint (word_cat (bytes ! (offset + 1)) (bytes ! offset) :: 16 word)"

section \<open>Sample inputs\<close>

text \<open>
  Concrete inputs on which the theorems below are instantiated: a renderer that returns silence
  of the requested length, a decoder that yields three mono samples at 16 kHz, and a small gate
  configuration (frames of two samples, a window of eight samples at 4 Hz, so that a frame
  lasts 500 ms and the window 2000 ms).
\<close>

definition silentRenderer :: "int \<Rightarrow> sample list \<Rightarrow> real \<Rightarrow> jsError + sample list" where
  "silentRenderer targetLength input rate = Inr (replicate (nat targetLength) 0)"

definition sampleBuffer :: AudioBuffer where
  "sampleBuffer = \<lparr> channels = [[1 / 2, - 1 / 2, 1 / 4]], bufferLength = 3, sampleRate = 16000 \<rparr>"

definition sampleEnv :: "(byte list) AudioEnv" where
  "sampleEnv =
     \<lparr> audioContextDefined = True,
       blobArrayBuffer = Inr,
       decodeAudioData = (\<lambda>arrayBuffer. Inr sampleBuffer),
       renderOffline = silentRenderer,
       closeContext = None \<rparr>"

definition sampleConfig :: GateConfig where
  "sampleConfig =
     \<lparr> BORDERLINE_QUIET_RMS_THRESHOLD = 3 / 10,
       CLIP_LEVEL = 98 / 100,
       CLIP_RATIO_THRESHOLD = 1 / 10,
       EARLY_END_MS = 1000,
       FLATLINE_ABS_MAX_THRESHOLD = 1 / 50,
       FLATLINE_RMS_THRESHOLD = 1 / 50,
       FRAME_SIZE = 2,
       GATE_TARGET_SAMPLE_COUNT = 8,
       GATE_TARGET_SAMPLE_RATE = 4,
       LATE_START_MS = 900,
       MIN_SPEECH_SPAN_MS = 400,
       NO_SPEECH_RATIO_THRESHOLD = 1 / 5,
       PASS_SPEECH_RATIO_THRESHOLD = 2 / 5,
       SPEECH_FRAME_RMS_THRESHOLD = 1 / 4,
       TOO_QUIET_RMS_THRESHOLD = 1 / 5 \<rparr>"

text \<open>
  A browser that grants the microphone (stream 7) and starts the recorder at clock reading 1000,
  and a session that has been recording since then with two chunks collected.
\<close>

definition sampleRecorderEnv :: RecorderEnv where
  "sampleRecorderEnv =
     \<lparr> getUserMediaDefined = True, mediaRecorderDefined = True, micOutcome = Granted 7,
       recorderCtorError = None, recorderStartError = None, dateNow = 1000 \<rparr>"

definition recordingSession :: Session where
  "recordingSession =
     initialSession\<lparr> status := Recording, stream := Some 7, elapsedMs := 700,
                     mediaRecorder := Some \<lparr> recorderStream = 7, active = True \<rparr>,
                     chunks := [[1, 2], [3]], timerArmed := True, autoStopArmed := True,
                     startedAt := Some 1000 \<rparr>"

section \<open>Properties of the conversion\<close>

lemma TARGET_SAMPLE_COUNT_eq: "TARGET_SAMPLE_COUNT = 32000"
  by (simp add: TARGET_SAMPLE_COUNT_def TARGET_SAMPLE_RATE_def TARGET_DURATION_MS_def)

lemma length_normalizeToFixedSamples: "length (normalizeToFixedSamples input n) = n"
  by (auto simp: normalizeToFixedSamples_def)

lemma cat16: "word_cat (ucast (drop_bit 8 w) :: 8 word) (ucast w :: 8 word) = (w :: 16 word)"
  by (rule bit_word_eqI) (auto simp: bit_simps)

lemma cat32: "word_cat (word_cat (ucast (drop_bit 24 w) :: 8 word) (ucast (drop_bit 16 w) :: 8 word) :: 16 word)
   (word_cat (ucast (drop_bit 8 w) :: 8 word) (ucast w :: 8 word) :: 16 word) = (w :: 32 word)"
  by (rule bit_word_eqI) (auto simp: bit_simps)

lemma length_wavHeader: "length (wavHeader n rate) = 44"
  by (simp add: wavHeader_def writeString_def writeUint16_def writeUint32_def Let_def)

lemma getUint16_header:
  "offset + 1 < 44 \<Longrightarrow> getUint16 (wavHeader n rate @ rest) offset = getUint16 (wavHeader n rate) offset"
  by (simp add: getUint16_def nth_append length_wavHeader)

lemma getUint32_header:
  "offset + 3 < 44 \<Longrightarrow> getUint32 (wavHeader n rate @ rest) offset = getUint32 (wavHeader n rate) offset"
  by (simp add: getUint32_def nth_append length_wavHeader)

lemma header_fields:
  "getUint16 (wavHeader n rate) 20 = 1"
  "getUint16 (wavHeader n rate) 22 = 1"
  "getUint32 (wavHeader n rate) 24 = rate mod 2 ^ 32"
  "getUint32 (wavHeader n rate) 28 = (rate * 1 * 2) mod 2 ^ 32"
  "getUint16 (wavHeader n rate) 32 = 1 * 2"
  "getUint16 (wavHeader n rate) 34 = 16"
  "getUint32 (wavHeader n rate) 40 = (n * 2) mod 2 ^ 32"
  "getUint32 (wavHeader n rate) 4 = (36 + n * 2) mod 2 ^ 32"
  "getUint32 (wavHeader n rate) 16 = 16"
  by (simp_all add: wavHeader_def writeString_def writeUint16_def writeUint32_def Let_def
       getUint16_def getUint32_def cat16 cat32 unat_of_nat del: of_nat_mult of_nat_add)

lemma header_tags:
  "take 4 (wavHeader n rate) = writeString ''RIFF''"
  "take 4 (drop 8 (wavHeader n rate)) = writeString ''WAVE''"
  "take 4 (drop 12 (wavHeader n rate)) = writeString ''fmt ''"
  "take 4 (drop 36 (wavHeader n rate)) = writeString ''data''"
  by (simp_all add: wavHeader_def writeString_def writeUint16_def writeUint32_def Let_def)

lemma length_encodeSample: "length (encodeSample s) = 2"
  by (simp add: encodeSample_def setInt16_def Let_def)

lemma length_concat_encodeSample: "length (concat (map encodeSample xs)) = 2 * length xs"
  by (induction xs) (simp_all add: length_encodeSample)

lemma concat_encodeSample_slice:
  "i < length xs \<Longrightarrow> take 2 (drop (2 * i) (concat (map encodeSample xs))) = encodeSample (xs ! i)"
proof (induction xs arbitrary: i)
  case Nil
  then show ?case by simp
next
  case (Cons x xs)
  show ?case
  proof (cases i)
    case 0
    then show ?thesis by (simp add: length_encodeSample)
  next
    case (Suc j)
    with Cons.prems have "j < length xs" by simp
    from Cons.IH [OF this] Suc show ?thesis by (simp add: length_encodeSample)
  qed
qed

lemma clampSample_range: "- 1 \<le> clampSample s \<and> clampSample s \<le> 1"
  by (simp add: clampSample_def)

lemma truncate_scaleSample_range:
  "- 32768 \<le> jsTruncate (scaleSample s) \<and> jsTruncate (scaleSample s) \<le> 32767"
proof -
  let ?c = "clampSample s"
  have r: "- 1 \<le> ?c" "?c \<le> 1" using clampSample_range by simp_all
  show ?thesis
  proof (cases "?c < 0")
    case True
    then have "scaleSample s = ?c * 32768" by (simp add: scaleSample_def Let_def)
    moreover have "- 32768 \<le> ?c * 32768" "?c * 32768 < 0" using r True by simp_all
    ultimately show ?thesis by (simp add: jsTruncate_def le_ceiling_iff ceiling_le_iff)
  next
    case False
    then have "scaleSample s = ?c * 32767" by (simp add: scaleSample_def Let_def)
    moreover have "0 \<le> ?c * 32767" "?c * 32767 \<le> 32767" using r False by simp_all
    ultimately show ?thesis by (simp add: jsTruncate_def le_floor_iff floor_le_iff)
  qed
qed

lemma getInt16_setInt16:
  "- 32768 \<le> jsTruncate v \<Longrightarrow> jsTruncate v \<le> 32767 \<Longrightarrow> getInt16 (setInt16 v) 0 = jsTruncate v"
  by (simp add: getInt16_def setInt16_def Let_def cat16 signed_of_int signed_take_bit_int_eq_self)

lemma normalizeToFixedSamples_cases:
  "normalizeToFixedSamples input n =
     (if n < length input then take n input else input @ replicate (n - length input) 0)"
  by (simp add: normalizeToFixedSamples_def)

lemma convert_InrD:
  assumes "convertBlobTo16kMonoWav env input = Inr r"
  shows "\<exists>arrayBuffer decodedBuffer monoData resampled.
           blobArrayBuffer env input = Inr arrayBuffer
         \<and> decodeAudioData env arrayBuffer = Inr decodedBuffer
         \<and> mixToMono decodedBuffer = Inr monoData
         \<and> resampleTo16k (renderOffline env) monoData (sampleRate decodedBuffer) = Inr resampled
         \<and> pcm r = normalizeToFixedSamples resampled TARGET_SAMPLE_COUNT
         \<and> blob r = encodeWavPcm16 (pcm r) TARGET_SAMPLE_RATE
         \<and> durationMs r = round ((real (length (pcm r)) / real TARGET_SAMPLE_RATE) * 1000)
         \<and> resultSampleRate r = TARGET_SAMPLE_RATE"
  using assms
  by (auto simp: convertBlobTo16kMonoWav_def convertBody_def Let_def
           split: if_splits option.splits sum.splits)

lemma sampleEnv_converts:
  "convertBlobTo16kMonoWav sampleEnv [] =
     Inr \<lparr> blob = encodeWavPcm16 (normalizeToFixedSamples [1 / 2, - 1 / 2, 1 / 4] TARGET_SAMPLE_COUNT)
                    TARGET_SAMPLE_RATE,
           pcm = normalizeToFixedSamples [1 / 2, - 1 / 2, 1 / 4] TARGET_SAMPLE_COUNT,
           durationMs = 2000,
           resultSampleRate = TARGET_SAMPLE_RATE \<rparr>"
  by (simp add: convertBlobTo16kMonoWav_def convertBody_def sampleEnv_def sampleBuffer_def
        mixToMono_def numberOfChannels_def getChannelData_def resampleTo16k_def
        length_normalizeToFixedSamples TARGET_SAMPLE_COUNT_eq Let_def)
     (simp add: TARGET_SAMPLE_RATE_def)

text \<open>
  Claim C1. Whenever \<^verbatim>\<open>convertBlobTo16kMonoWav\<close> succeeds, the PCM it returns has exactly
  \<open>TARGET_SAMPLE_RATE * TARGET_DURATION_MS / 1000 = 32000\<close> samples, whatever the length of the
  decoded and resampled signal: a longer signal is cut after 32000 samples, a shorter one is
  followed by zeros.
\<close>

theorem convert_fixed_length:
  assumes "convertBlobTo16kMonoWav env input = Inr r"
  shows "length (pcm r) = TARGET_SAMPLE_RATE * TARGET_DURATION_MS div 1000
       \<and> length (pcm r) = 32000
       \<and> (\<exists>arrayBuffer decodedBuffer monoData resampled.
             blobArrayBuffer env input = Inr arrayBuffer
           \<and> decodeAudioData env arrayBuffer = Inr decodedBuffer
           \<and> mixToMono decodedBuffer = Inr monoData
           \<and> resampleTo16k (renderOffline env) monoData (sampleRate decodedBuffer) = Inr resampled
           \<and> pcm r = (if 32000 < length resampled then take 32000 resampled
                      else resampled @ replicate (32000 - length resampled) 0))"
proof -
  from convert_InrD [OF assms] obtain arrayBuffer decodedBuffer monoData resampled where
    h: "blobArrayBuffer env input = Inr arrayBuffer"
       "decodeAudioData env arrayBuffer = Inr decodedBuffer"
       "mixToMono decodedBuffer = Inr monoData"
       "resampleTo16k (renderOffline env) monoData (sampleRate decodedBuffer) = Inr resampled"
       "pcm r = normalizeToFixedSamples resampled TARGET_SAMPLE_COUNT"
    by blast
  have l: "length (pcm r) = 32000"
    by (simp add: h(5) length_normalizeToFixedSamples TARGET_SAMPLE_COUNT_eq)
  have c: "TARGET_SAMPLE_RATE * TARGET_DURATION_MS div 1000 = 32000"
    by (simp add: TARGET_SAMPLE_RATE_def TARGET_DURATION_MS_def)
  have p: "pcm r = (if 32000 < length resampled then take 32000 resampled
                      else resampled @ replicate (32000 - length resampled) 0)"
    unfolding h(5) TARGET_SAMPLE_COUNT_eq by (rule normalizeToFixedSamples_cases)
  from h(1-4) p have
    "\<exists>arrayBuffer decodedBuffer monoData resampled.
             blobArrayBuffer env input = Inr arrayBuffer
           \<and> decodeAudioData env arrayBuffer = Inr decodedBuffer
           \<and> mixToMono decodedBuffer = Inr monoData
           \<and> resampleTo16k (renderOffline env) monoData (sampleRate decodedBuffer) = Inr resampled
           \<and> pcm r = (if 32000 < length resampled then take 32000 resampled
                      else resampled @ replicate (32000 - length resampled) 0)"
    by blast
  with l c show ?thesis by simp
qed

theorem convert_fixed_length_witness:
  "\<exists>r. convertBlobTo16kMonoWav sampleEnv [] = Inr r \<and> length (pcm r) = 32000
       \<and> pcm r = [1 / 2, - 1 / 2, 1 / 4] @ replicate 31997 0"
proof -
  from convert_fixed_length [OF sampleEnv_converts]
  have "length (normalizeToFixedSamples [1 / 2, - 1 / 2, 1 / 4 :: real] TARGET_SAMPLE_COUNT) = 32000"
    by simp
  moreover have "normalizeToFixedSamples [1 / 2, - 1 / 2, 1 / 4 :: real] TARGET_SAMPLE_COUNT
      = [1 / 2, - 1 / 2, 1 / 4] @ replicate 31997 0"
    by (simp add: normalizeToFixedSamples_cases TARGET_SAMPLE_COUNT_eq)
  ultimately show ?thesis using sampleEnv_converts by simp
qed

text \<open>
  Claim C9. Whenever \<^verbatim>\<open>convertBlobTo16kMonoWav\<close> succeeds it reports \<open>durationMs = 2000\<close> and
  \<open>sampleRate = 16000\<close>: the duration is computed from the fixed-length output, so it is the
  target duration and not the length of the recording.
\<close>

theorem convert_reports_target_duration:
  assumes "convertBlobTo16kMonoWav env input = Inr r"
  shows "durationMs r = 2000 \<and> resultSampleRate r = 16000
       \<and> durationMs r = int TARGET_DURATION_MS
       \<and> durationMs r = round ((real (length (pcm r)) / 16000) * 1000)"
proof -
  from convert_InrD [OF assms] obtain resampled where
    h: "pcm r = normalizeToFixedSamples resampled TARGET_SAMPLE_COUNT"
       "durationMs r = round ((real (length (pcm r)) / real TARGET_SAMPLE_RATE) * 1000)"
       "resultSampleRate r = TARGET_SAMPLE_RATE"
    by blast
  have l: "length (pcm r) = 32000"
    by (simp add: h(1) length_normalizeToFixedSamples TARGET_SAMPLE_COUNT_eq)
  show ?thesis
    using h(2,3) l by (simp add: TARGET_SAMPLE_RATE_def TARGET_DURATION_MS_def)
qed

theorem convert_reports_target_duration_witness:
  "\<exists>r. convertBlobTo16kMonoWav sampleEnv [] = Inr r
       \<and> bufferLength sampleBuffer = 3 \<and> durationMs r = 2000 \<and> resultSampleRate r = 16000"
  using convert_reports_target_duration [OF sampleEnv_converts] sampleEnv_converts
  by (simp add: sampleBuffer_def)

section \<open>Resampling\<close>

lemma resampleTo16k_cases:
  "resampleTo16k render input rate =
     (if rate = 16000 then Inr input
      else if rate = 0 then Inl (DOMException ''NotSupportedError'')
      else render (max 1 (round (real (length input) * 16000 / rate))) input rate)"
  by (simp add: resampleTo16k_def resampleTargetLength_def TARGET_SAMPLE_RATE_def)

text \<open>
  Claim C5, as amended. At the native rate 16000 \<^verbatim>\<open>resampleTo16k\<close> returns its input unchanged.
  At any other positive rate it renders to the target length
  \<open>max 1 (round (n * 16000 / rate))\<close> for an input of \<open>n\<close> samples: to \<open>round (n * 16000 / rate)\<close>
  whenever that is at least one, and to one sample otherwise.
\<close>

theorem resample_target_length:
  "(rate = 16000 \<longrightarrow> resampleTo16k render input rate = Inr input)
   \<and> (0 < rate \<and> rate \<noteq> 16000 \<longrightarrow>
        resampleTo16k render input rate
          = render (max 1 (round (real (length input) * 16000 / rate))) input rate)
   \<and> (0 < rate \<and> rate \<noteq> 16000 \<and> 1 \<le> round (real (length input) * 16000 / rate) \<longrightarrow>
        resampleTo16k render input rate
          = render (round (real (length input) * 16000 / rate)) input rate)"
  by (simp add: resampleTo16k_cases max_def)

theorem resample_target_length_witness:
  "resampleTo16k silentRenderer [1 / 2] 16000 = Inr [1 / 2]
   \<and> resampleTo16k silentRenderer (replicate 16000 0) 8000
       = silentRenderer 32000 (replicate 16000 0) 8000
   \<and> resampleTo16k silentRenderer [1 / 2] 48000 = silentRenderer 1 [1 / 2] 48000"
  using resample_target_length [where rate = 16000 and render = silentRenderer and input = "[1 / 2]"]
    resample_target_length [where rate = 8000 and render = silentRenderer and input = "replicate 16000 0"]
    resample_target_length [where rate = 48000 and render = silentRenderer and input = "[1 / 2]"]
  by (simp add: round_def)

text \<open>
  Claim C5 as first stated fails: the target length is not always the rounded quotient. One sample
  at 48000 Hz is rendered to one sample, while \<open>round (1 * 16000 / 48000) = 0\<close>.
\<close>

theorem resample_target_length_counterexample:
  "resampleTo16k silentRenderer [1 / 2] 48000
     \<noteq> silentRenderer (round (real (length [1 / 2 :: real]) * 16000 / 48000)) [1 / 2] 48000
   \<and> resampleTo16k silentRenderer [1 / 2] 48000 = Inr [0]
   \<and> round (real (length [1 / 2 :: real]) * 16000 / 48000 :: real) = 0"
  by (simp add: resampleTo16k_cases silentRenderer_def round_def)

section \<open>The WAV file\<close>

lemma encodeWavPcm16_header16:
  "offset + 1 < 44 \<Longrightarrow> getUint16 (encodeWavPcm16 samples rate) offset = getUint16 (wavHeader (length samples) rate) offset"
  by (simp add: encodeWavPcm16_def getUint16_header)

lemma encodeWavPcm16_header32:
  "offset + 3 < 44 \<Longrightarrow> getUint32 (encodeWavPcm16 samples rate) offset = getUint32 (wavHeader (length samples) rate) offset"
  by (simp add: encodeWavPcm16_def getUint32_header)

lemma encodeWavPcm16_tags:
  "take 4 (encodeWavPcm16 samples rate) = writeString ''RIFF''"
  "take 4 (drop 8 (encodeWavPcm16 samples rate)) = writeString ''WAVE''"
  "take 4 (drop 12 (encodeWavPcm16 samples rate)) = writeString ''fmt ''"
  "take 4 (drop 36 (encodeWavPcm16 samples rate)) = writeString ''data''"
  by (simp_all add: encodeWavPcm16_def length_wavHeader header_tags)

lemma encodeWavPcm16_data:
  "drop 44 (encodeWavPcm16 samples rate) = concat (map encodeSample samples)"
  by (simp add: encodeWavPcm16_def length_wavHeader)

lemma length_encodeWavPcm16:
  "length (encodeWavPcm16 samples rate) = 44 + length samples * 2"
  by (simp add: encodeWavPcm16_def length_wavHeader length_concat_encodeSample)

text \<open>
  Claim C3. The file produced by \<^verbatim>\<open>encodeWavPcm16\<close> at the target rate is a header of 44 bytes
  followed by two bytes per sample. Read back from the header, the format tag is 1, the channel
  count 1, the sample rate 16000, the byte rate \<open>rate * channels * 2\<close>, the block alignment
  \<open>channels * 2\<close>, the bit depth 16 and the data size \<open>sampleCount * 2\<close>. The data size field has
  32 bits, so the sample data must be shorter than \<open>2^32\<close> bytes.
\<close>

theorem wav_header_roundtrip:
  assumes "length samples * 2 < 2 ^ 32"
  shows "length (encodeWavPcm16 samples TARGET_SAMPLE_RATE) = 44 + length samples * 2
       \<and> drop 44 (encodeWavPcm16 samples TARGET_SAMPLE_RATE) = concat (map encodeSample samples)
       \<and> length (concat (map encodeSample samples)) = length samples * 2
       \<and> take 4 (encodeWavPcm16 samples TARGET_SAMPLE_RATE) = writeString ''RIFF''
       \<and> take 4 (drop 8 (encodeWavPcm16 samples TARGET_SAMPLE_RATE)) = writeString ''WAVE''
       \<and> take 4 (drop 12 (encodeWavPcm16 samples TARGET_SAMPLE_RATE)) = writeString ''fmt ''
       \<and> take 4 (drop 36 (encodeWavPcm16 samples TARGET_SAMPLE_RATE)) = writeString ''data''
       \<and> getUint16 (encodeWavPcm16 samples TARGET_SAMPLE_RATE) 20 = 1
       \<and> getUint16 (encodeWavPcm16 samples TARGET_SAMPLE_RATE) 22 = 1
       \<and> getUint32 (encodeWavPcm16 samples TARGET_SAMPLE_RATE) 24 = 16000
       \<and> getUint32 (encodeWavPcm16 samples TARGET_SAMPLE_RATE) 28 = 16000 * 1 * 2
       \<and> getUint16 (encodeWavPcm16 samples TARGET_SAMPLE_RATE) 32 = 1 * 2
       \<and> getUint16 (encodeWavPcm16 samples TARGET_SAMPLE_RATE) 34 = 16
       \<and> getUint32 (encodeWavPcm16 samples TARGET_SAMPLE_RATE) 40 = length samples * 2"
proof -
  let ?wav = "encodeWavPcm16 samples TARGET_SAMPLE_RATE"
  have f20: "getUint16 ?wav 20 = 1" and f22: "getUint16 ?wav 22 = 1"
    and f32: "getUint16 ?wav 32 = 1 * 2" and f34: "getUint16 ?wav 34 = 16"
    by (simp_all add: encodeWavPcm16_header16 header_fields)
  have f24: "getUint32 ?wav 24 = 16000" and f28: "getUint32 ?wav 28 = 16000 * 1 * 2"
    by (simp_all add: encodeWavPcm16_header32 header_fields TARGET_SAMPLE_RATE_def)
  have f40: "getUint32 ?wav 40 = length samples * 2"
    using assms by (simp add: encodeWavPcm16_header32 header_fields)
  show ?thesis
    using f20 f22 f24 f28 f32 f34 f40
    by (simp add: length_encodeWavPcm16 encodeWavPcm16_data length_concat_encodeSample
          encodeWavPcm16_tags)
qed

theorem wav_header_roundtrip_witness:
  "length (encodeWavPcm16 (replicate 32000 0) TARGET_SAMPLE_RATE) = 64044
   \<and> getUint32 (encodeWavPcm16 (replicate 32000 0) TARGET_SAMPLE_RATE) 24 = 16000
   \<and> getUint32 (encodeWavPcm16 (replicate 32000 0) TARGET_SAMPLE_RATE) 40 = 64000"
  using wav_header_roundtrip [of "replicate 32000 0"] by simp

lemma getInt16_slice:
  "offset + 1 < length bytes \<Longrightarrow> getInt16 bytes offset = getInt16 (take 2 (drop offset bytes)) 0"
  by (simp add: getInt16_def)

lemma encodeWavPcm16_sample_slice:
  assumes "i < length samples"
  shows "take 2 (drop (44 + 2 * i) (encodeWavPcm16 samples rate)) = encodeSample (samples ! i)"
proof -
  have "drop (44 + 2 * i) (encodeWavPcm16 samples rate)
          = drop (2 * i) (drop 44 (encodeWavPcm16 samples rate))"
    by (simp add: add.commute)
  then show ?thesis
    by (simp only: encodeWavPcm16_data concat_encodeSample_slice [OF assms])
qed

text \<open>
  Claim C6. Every sample written by the encoder is first clamped to \<open>[-1, 1]\<close>, then scaled by
  32768 when negative and by 32767 otherwise; the scaled value, truncated to an integer, lies in
  the signed 16 bit range and is stored little-endian in the two bytes of the sample's slot, from
  which a signed 16 bit read returns it.
\<close>

theorem sample_encoding:
  assumes "i < length samples"
  shows "clampSample (samples ! i)
           = (if samples ! i < - 1 then - 1 else if 1 < samples ! i then 1 else samples ! i)
       \<and> - 1 \<le> clampSample (samples ! i) \<and> clampSample (samples ! i) \<le> 1
       \<and> scaleSample (samples ! i)
           = (if clampSample (samples ! i) < 0 then clampSample (samples ! i) * 32768
              else clampSample (samples ! i) * 32767)
       \<and> - 32768 \<le> jsTruncate (scaleSample (samples ! i))
       \<and> jsTruncate (scaleSample (samples ! i)) \<le> 32767
       \<and> take 2 (drop (44 + 2 * i) (encodeWavPcm16 samples rate))
           = setInt16 (scaleSample (samples ! i))
       \<and> getInt16 (encodeWavPcm16 samples rate) (44 + 2 * i)
           = jsTruncate (scaleSample (samples ! i))"
proof -
  have c: "clampSample (samples ! i)
           = (if samples ! i < - 1 then - 1 else if 1 < samples ! i then 1 else samples ! i)"
    by (simp add: clampSample_def max_def min_def)
  have s: "scaleSample (samples ! i)
           = (if clampSample (samples ! i) < 0 then clampSample (samples ! i) * 32768
              else clampSample (samples ! i) * 32767)"
    by (simp add: scaleSample_def Let_def)
  note t = truncate_scaleSample_range [of "samples ! i"]
  have b: "take 2 (drop (44 + 2 * i) (encodeWavPcm16 samples rate))
           = setInt16 (scaleSample (samples ! i))"
    using encodeWavPcm16_sample_slice [OF assms] by (simp add: encodeSample_def)
  have "44 + 2 * i + 1 < length (encodeWavPcm16 samples rate)"
    using assms by (simp add: length_encodeWavPcm16)
  then have "getInt16 (encodeWavPcm16 samples rate) (44 + 2 * i)
      = getInt16 (setInt16 (scaleSample (samples ! i))) 0"
    by (simp only: getInt16_slice b)
  also have "\<dots> = jsTruncate (scaleSample (samples ! i))"
    using t by (simp add: getInt16_setInt16)
  finally show ?thesis using c s t b clampSample_range [of "samples ! i"] by simp
qed

theorem sample_encoding_witness:
  "getInt16 (encodeWavPcm16 [- 1 / 2, 2, 1 / 4] 16000) 44 = - 16384
   \<and> getInt16 (encodeWavPcm16 [- 1 / 2, 2, 1 / 4] 16000) 46 = 32767
   \<and> getInt16 (encodeWavPcm16 [- 1 / 2, 2, 1 / 4] 16000) 48 = 8191"
  using sample_encoding [of 0 "[- 1 / 2, 2, 1 / 4]" 16000]
    sample_encoding [of 1 "[- 1 / 2, 2, 1 / 4]" 16000]
    sample_encoding [of 2 "[- 1 / 2, 2, 1 / 4]" 16000]
  by (simp add: scaleSample_def clampSample_def jsTruncate_def)

section \<open>Properties of the speech gate\<close>

lemma length_normalizePcmLength:
  "length (normalizePcmLength cfg samples) = GATE_TARGET_SAMPLE_COUNT cfg"
  by (auto simp: normalizePcmLength_def)

lemma normalizePcmLength_zeros:
  "normalizePcmLength cfg (replicate n 0) = replicate (GATE_TARGET_SAMPLE_COUNT cfg) 0"
  by (auto simp: normalizePcmLength_def replicate_add [symmetric] min_def)

lemma Max_insert_abs:
  "Max (insert (max p \<bar>x\<bar>) (abs ` set xs)) = Max (insert p (insert \<bar>x\<bar> (abs ` set (xs :: real list))))"
proof (cases "xs = []")
  case True
  then show ?thesis by (simp add: max.commute)
next
  case False
  then show ?thesis by (simp add: max.assoc max.commute max.left_commute)
qed

lemma sampleLoop_eq:
  "sampleLoop c xs (s, p, k) =
     (s + sum_list (map (\<lambda>x. x * x) xs),
      Max (insert p (abs ` set xs)),
      k + length (filter (\<lambda>x. \<bar>x\<bar> > c) xs))"
proof (induction xs arbitrary: s p k)
  case Nil
  then show ?case by simp
next
  case (Cons x xs)
  have e: "(if \<bar>x\<bar> > p then \<bar>x\<bar> else p) = max p \<bar>x\<bar>" by (simp add: max_def)
  show ?case
    unfolding sampleLoop.simps Let_def e Cons.IH Max_insert_abs
    by (simp add: add.assoc)
qed

lemma jsDivide_Some: "y \<noteq> 0 \<Longrightarrow> jsDivide x y = Some (x / y)"
  by (simp add: jsDivide_def)

lemma gateMetrics_Some:
  assumes "0 < FRAME_SIZE cfg" "0 < GATE_TARGET_SAMPLE_COUNT cfg" "0 < GATE_TARGET_SAMPLE_RATE cfg"
  shows "\<exists>m. gateMetrics cfg samples rate = Some m"
proof -
  obtain s p k where sl: "sampleLoop (CLIP_LEVEL cfg) (normalizePcmLength cfg samples) (0, 0, 0) = (s, p, k)"
    by (metis prod_cases3)
  have n: "real (length (normalizePcmLength cfg samples)) \<noteq> 0"
    using assms by (simp add: length_normalizePcmLength)
  have f: "real (FRAME_SIZE cfg) \<noteq> 0" using assms by simp
  have r: "(if rate > 0 then rate else GATE_TARGET_SAMPLE_RATE cfg) \<noteq> 0" using assms by simp
  show ?thesis
    unfolding gateMetrics_def Let_def sl prod.case jsDivide_Some [OF n] jsDivide_Some [OF f]
      jsDivide_Some [OF r] bind.bind_lunit
    by (simp add: case_prod_beta jsDivide_def floor_divide_of_nat_eq)
qed

lemma gateMetrics_rms_absMax:
  assumes "gateMetrics cfg samples rate = Some m"
  shows "rms m = sqrt (sum_list (map (\<lambda>x. x * x) (normalizePcmLength cfg samples))
                        / real (length (normalizePcmLength cfg samples)))
         \<and> absMax m = Max (insert 0 (abs ` set (normalizePcmLength cfg samples)))"
  using assms
  unfolding gateMetrics_def Let_def sampleLoop_eq prod.case
  by (auto simp: bind_eq_Some_conv jsDivide_def case_prod_beta split: if_splits)

lemma sqrt_less_numeral: "0 < c \<Longrightarrow> sqrt x < c \<longleftrightarrow> x < c * c"
  by (metis abs_of_pos real_sqrt_abs2 real_sqrt_less_iff)

lemma sqrt_ge_numeral: "0 \<le> c \<Longrightarrow> c \<le> sqrt x \<longleftrightarrow> c * c \<le> x"
  by (metis abs_of_nonneg real_sqrt_abs2 real_sqrt_le_iff)

lemma upt_0_4: "[0..<4] = [0, 1, 2, 3]"
  by (simp add: upt_rec)

lemma sqrt_9_100: "sqrt (9 / 100) = 3 / 10"
  by (rule real_sqrt_unique) (simp_all add: power2_eq_square)

lemma sqrt_9_400: "sqrt (9 / 400) = 3 / 20"
  by (rule real_sqrt_unique) (simp_all add: power2_eq_square)

lemma quietLate_frames:
  "frameSquares [0, 0, 0, 0, 0, 0, 3 / 10, 3 / 10] 0 (Suc (Suc 0)) = 0"
  "frameSquares [0, 0, 0, 0, 0, 0, 3 / 10, 3 / 10] 2 4 = 0"
  "frameSquares [0, 0, 0, 0, 0, 0, 3 / 10, 3 / 10] 4 6 = 0"
  "frameSquares [0, 0, 0, 0, 0, 0, 3 / 10, 3 / 10] 6 8 = 9 / 50"
  by (simp_all add: frameSquares_def upt_rec)

lemma quietLate_frameLoop:
  "frameLoop sampleConfig [0, 0, 0, 0, 0, 0, 3 / 10, 3 / 10] 4 = (1, 3, 3)"
  by (simp add: frameLoop_def frameStep_def upt_0_4 sampleConfig_def quietLate_frames sqrt_9_100)

lemma quietLate_metrics:
  "gateMetrics sampleConfig [0, 0, 0, 0, 0, 0, 3 / 10, 3 / 10] 4 =
     Some \<lparr> rms = 3 / 20, absMax = 3 / 10, clipRatio = 0, speechRatio = 1 / 4,
            firstSpeechMs = Some 1500, lastSpeechMs = Some 2000 \<rparr>"
proof -
  have n: "normalizePcmLength sampleConfig [0, 0, 0, 0, 0, 0, 3 / 10, 3 / 10] = [0, 0, 0, 0, 0, 0, 3 / 10, 3 / 10]"
    by (simp add: normalizePcmLength_def sampleConfig_def)
  have c: "FRAME_SIZE sampleConfig = 2" "CLIP_LEVEL sampleConfig = 98 / 100"
    "GATE_TARGET_SAMPLE_RATE sampleConfig = 4"
    by (simp_all add: sampleConfig_def)
  show ?thesis
    unfolding gateMetrics_def n Let_def c
    by (simp add: jsDivide_def quietLate_frameLoop sqrt_9_400)
qed


lemma debugMetrics_gateDecision: "debugMetrics (gateDecision cfg m) = m"
  by (simp add: gateDecision_def buildResult_def)

lemma analyze_SomeD:
  assumes "analyzePcmForSpeechGate cfg samples rate = Some r"
  obtains m where "gateMetrics cfg samples rate = Some m" "r = gateDecision cfg m"
    "debugMetrics r = m"
  using assms by (auto simp: analyzePcmForSpeechGate_def debugMetrics_gateDecision)

lemma gateDecision_Flatline:
  "reason (gateDecision cfg m) = Flatline \<longleftrightarrow>
     absMax m < FLATLINE_ABS_MAX_THRESHOLD cfg \<and> rms m < FLATLINE_RMS_THRESHOLD cfg"
  by (simp add: gateDecision_def buildResult_def)

lemma gateDecision_Flatline_REJECT:
  "reason (gateDecision cfg m) = Flatline \<Longrightarrow> decision (gateDecision cfg m) = REJECT"
  by (simp add: gateDecision_def buildResult_def split: if_splits)

lemma gateDecision_TooQuiet:
  assumes "\<not> (absMax m < FLATLINE_ABS_MAX_THRESHOLD cfg \<and> rms m < FLATLINE_RMS_THRESHOLD cfg)"
    and "rms m < TOO_QUIET_RMS_THRESHOLD cfg"
  shows "reason (gateDecision cfg m) = TooQuiet \<and> decision (gateDecision cfg m) = REJECT"
  using assms by (auto simp: gateDecision_def buildResult_def)

text \<open>
  Claim C2. The branches are tried in the order of the source and the first match returns. A sample
  array that is too quiet (overall RMS below the too-quiet threshold), not a flatline, and at the
  same time off-centre is rejected with reason \<open>TooQuiet\<close>, not reported as \<open>SpeechOffCenter\<close>.
\<close>

theorem too_quiet_before_off_center:
  assumes "analyzePcmForSpeechGate cfg samples rate = Some r"
    and "\<not> (absMax (debugMetrics r) < FLATLINE_ABS_MAX_THRESHOLD cfg
            \<and> rms (debugMetrics r) < FLATLINE_RMS_THRESHOLD cfg)"
    and "rms (debugMetrics r) < TOO_QUIET_RMS_THRESHOLD cfg"
    and "offCenter cfg (debugMetrics r)"
  shows "reason r = TooQuiet \<and> decision r = REJECT \<and> reason r \<noteq> SpeechOffCenter"
proof -
  from assms(1) obtain m where m: "r = gateDecision cfg m" "debugMetrics r = m"
    by (rule analyze_SomeD)
  from assms(2,3) have "reason (gateDecision cfg m) = TooQuiet \<and> decision (gateDecision cfg m) = REJECT"
    unfolding m(2) by (rule gateDecision_TooQuiet)
  then show ?thesis unfolding m(1) by simp
qed

lemma quietLate_analyze:
  "analyzePcmForSpeechGate sampleConfig [0, 0, 0, 0, 0, 0, 3 / 10, 3 / 10] 4 =
     Some (gateDecision sampleConfig
             \<lparr> rms = 3 / 20, absMax = 3 / 10, clipRatio = 0, speechRatio = 1 / 4,
               firstSpeechMs = Some 1500, lastSpeechMs = Some 2000 \<rparr>)"
  by (simp add: analyzePcmForSpeechGate_def quietLate_metrics)

theorem too_quiet_before_off_center_witness:
  "\<exists>r. analyzePcmForSpeechGate sampleConfig [0, 0, 0, 0, 0, 0, 3 / 10, 3 / 10] 4 = Some r
       \<and> firstSpeechMs (debugMetrics r) = Some 1500
       \<and> offCenter sampleConfig (debugMetrics r)
       \<and> rms (debugMetrics r) = 3 / 20
       \<and> reason r = TooQuiet \<and> decision r = REJECT"
proof -
  let ?m = "\<lparr> rms = 3 / 20, absMax = 3 / 10, clipRatio = 0, speechRatio = 1 / 4,
               firstSpeechMs = Some 1500, lastSpeechMs = Some 2000 \<rparr> :: DebugMetrics"
  let ?r = "gateDecision sampleConfig ?m"
  have d: "debugMetrics ?r = ?m" by (rule debugMetrics_gateDecision)
  have h1: "\<not> (absMax (debugMetrics ?r) < FLATLINE_ABS_MAX_THRESHOLD sampleConfig
            \<and> rms (debugMetrics ?r) < FLATLINE_RMS_THRESHOLD sampleConfig)"
    unfolding d by (simp add: sampleConfig_def)
  have h2: "rms (debugMetrics ?r) < TOO_QUIET_RMS_THRESHOLD sampleConfig"
    unfolding d by (simp add: sampleConfig_def)
  have h3: "offCenter sampleConfig (debugMetrics ?r)"
    unfolding d by (simp add: offCenter_def sampleConfig_def)
  from too_quiet_before_off_center [OF quietLate_analyze h1 h2 h3]
  show ?thesis using quietLate_analyze h3 d by simp
qed

lemma sqrt_1_1600: "sqrt (1 / 1600) = 1 / 40"
  by (rule real_sqrt_unique) (simp_all add: power2_eq_square)

lemma sqrt_1_6400: "sqrt (1 / 6400) = 1 / 80"
  by (rule real_sqrt_unique) (simp_all add: power2_eq_square)

lemma transient_frames:
  "frameSquares [1 / 40, 1 / 40, 0, 0, 0, 0, 0, 0] 0 (Suc (Suc 0)) = 1 / 800"
  "frameSquares [1 / 40, 1 / 40, 0, 0, 0, 0, 0, 0] 2 4 = 0"
  "frameSquares [1 / 40, 1 / 40, 0, 0, 0, 0, 0, 0] 4 6 = 0"
  "frameSquares [1 / 40, 1 / 40, 0, 0, 0, 0, 0, 0] 6 8 = 0"
  by (simp_all add: frameSquares_def upt_rec)

lemma transient_frameLoop:
  "frameLoop sampleConfig [1 / 40, 1 / 40, 0, 0, 0, 0, 0, 0] 4 = (0, - 1, - 1)"
  by (simp add: frameLoop_def frameStep_def upt_0_4 sampleConfig_def transient_frames sqrt_1_1600)

lemma transient_metrics:
  "gateMetrics sampleConfig [1 / 40, 1 / 40, 0, 0, 0, 0, 0, 0] 4 =
     Some \<lparr> rms = 1 / 80, absMax = 1 / 40, clipRatio = 0, speechRatio = 0,
            firstSpeechMs = None, lastSpeechMs = None \<rparr>"
proof -
  have n: "normalizePcmLength sampleConfig [1 / 40, 1 / 40, 0, 0, 0, 0, 0, 0]
             = [1 / 40, 1 / 40, 0, 0, 0, 0, 0, 0]"
    by (simp add: normalizePcmLength_def sampleConfig_def)
  have c: "FRAME_SIZE sampleConfig = 2" "CLIP_LEVEL sampleConfig = 98 / 100"
    "GATE_TARGET_SAMPLE_RATE sampleConfig = 4"
    by (simp_all add: sampleConfig_def)
  show ?thesis
    unfolding gateMetrics_def n Let_def c
    by (simp add: jsDivide_def transient_frameLoop sqrt_1_6400)
qed

lemma transient_analyze:
  "analyzePcmForSpeechGate sampleConfig [1 / 40, 1 / 40, 0, 0, 0, 0, 0, 0] 4 =
     Some (gateDecision sampleConfig
             \<lparr> rms = 1 / 80, absMax = 1 / 40, clipRatio = 0, speechRatio = 0,
               firstSpeechMs = None, lastSpeechMs = None \<rparr>)"
  by (simp add: analyzePcmForSpeechGate_def transient_metrics)

lemma zeros_metrics:
  assumes "gateMetrics cfg (replicate n 0) rate = Some m" "0 < GATE_TARGET_SAMPLE_COUNT cfg"
  shows "rms m = 0 \<and> absMax m = 0"
  using gateMetrics_rms_absMax [OF assms(1)] assms(2)
  by (simp add: normalizePcmLength_zeros sum_list_replicate)

lemma zeros_flatline:
  assumes "0 < FRAME_SIZE cfg" "0 < GATE_TARGET_SAMPLE_COUNT cfg" "0 < GATE_TARGET_SAMPLE_RATE cfg"
    and "0 < FLATLINE_ABS_MAX_THRESHOLD cfg" "0 < FLATLINE_RMS_THRESHOLD cfg"
  shows "map_option (\<lambda>r. (decision r, reason r)) (analyzePcmForSpeechGate cfg (replicate n 0) rate)
           = Some (REJECT, Flatline)"
proof -
  from gateMetrics_Some [OF assms(1-3)] obtain m where
    m: "gateMetrics cfg (replicate n 0) rate = Some m" by blast
  from zeros_metrics [OF m assms(2)] have z: "rms m = 0" "absMax m = 0" by simp_all
  have "reason (gateDecision cfg m) = Flatline"
    using assms(4,5) z by (simp add: gateDecision_Flatline)
  then show ?thesis
    using gateDecision_Flatline_REJECT [of cfg m] by (simp add: analyzePcmForSpeechGate_def m)
qed

text \<open>
  Claim C4. The gate answers \<open>Flatline\<close> exactly when the peak absolute amplitude of the
  (length-normalized) samples is below the flatline peak threshold and their overall RMS is below
  the flatline RMS threshold; a peak at or above its threshold excludes \<open>Flatline\<close> however small
  the RMS is, and \<open>Flatline\<close> is always a \<open>REJECT\<close>. For 32000 zero samples the gate rejects with
  reason \<open>Flatline\<close>, the two flatline thresholds and the sizes of the configuration being positive.
\<close>

theorem flatline_needs_peak_and_rms:
  "(analyzePcmForSpeechGate cfg samples rate = Some r \<longrightarrow>
      absMax (debugMetrics r) = Max (insert 0 (abs ` set (normalizePcmLength cfg samples)))
    \<and> rms (debugMetrics r)
        = sqrt (sum_list (map (\<lambda>x. x * x) (normalizePcmLength cfg samples))
                / real (length (normalizePcmLength cfg samples)))
    \<and> (reason r = Flatline \<longleftrightarrow>
         absMax (debugMetrics r) < FLATLINE_ABS_MAX_THRESHOLD cfg
         \<and> rms (debugMetrics r) < FLATLINE_RMS_THRESHOLD cfg)
    \<and> (FLATLINE_ABS_MAX_THRESHOLD cfg \<le> absMax (debugMetrics r) \<longrightarrow> reason r \<noteq> Flatline)
    \<and> (reason r = Flatline \<longrightarrow> decision r = REJECT))
   \<and> (0 < FRAME_SIZE cfg \<and> 0 < GATE_TARGET_SAMPLE_COUNT cfg \<and> 0 < GATE_TARGET_SAMPLE_RATE cfg
       \<and> 0 < FLATLINE_ABS_MAX_THRESHOLD cfg \<and> 0 < FLATLINE_RMS_THRESHOLD cfg \<longrightarrow>
       map_option (\<lambda>r. (decision r, reason r))
         (analyzePcmForSpeechGate cfg (replicate 32000 0) rate) = Some (REJECT, Flatline))"
proof (intro conjI impI)
  assume a: "analyzePcmForSpeechGate cfg samples rate = Some r"
  then obtain m where m: "gateMetrics cfg samples rate = Some m" "r = gateDecision cfg m"
    "debugMetrics r = m"
    by (rule analyze_SomeD)
  from gateMetrics_rms_absMax [OF m(1)]
  show "absMax (debugMetrics r) = Max (insert 0 (abs ` set (normalizePcmLength cfg samples)))"
    and "rms (debugMetrics r)
        = sqrt (sum_list (map (\<lambda>x. x * x) (normalizePcmLength cfg samples))
                / real (length (normalizePcmLength cfg samples)))"
    by (simp_all add: m(3))
  show f: "reason r = Flatline \<longleftrightarrow>
         absMax (debugMetrics r) < FLATLINE_ABS_MAX_THRESHOLD cfg
         \<and> rms (debugMetrics r) < FLATLINE_RMS_THRESHOLD cfg"
    unfolding m(3) unfolding m(2) by (rule gateDecision_Flatline)
  show "reason r \<noteq> Flatline" if "FLATLINE_ABS_MAX_THRESHOLD cfg \<le> absMax (debugMetrics r)"
    using that f by simp
  show "decision r = REJECT" if "reason r = Flatline"
    using that unfolding m(2) by (rule gateDecision_Flatline_REJECT)
next
  assume "0 < FRAME_SIZE cfg \<and> 0 < GATE_TARGET_SAMPLE_COUNT cfg \<and> 0 < GATE_TARGET_SAMPLE_RATE cfg
       \<and> 0 < FLATLINE_ABS_MAX_THRESHOLD cfg \<and> 0 < FLATLINE_RMS_THRESHOLD cfg"
  then show "map_option (\<lambda>r. (decision r, reason r))
         (analyzePcmForSpeechGate cfg (replicate 32000 0) rate) = Some (REJECT, Flatline)"
    by (simp add: zeros_flatline)
qed

theorem flatline_needs_peak_and_rms_witness:
  "(\<exists>r. analyzePcmForSpeechGate sampleConfig [1 / 40, 1 / 40, 0, 0, 0, 0, 0, 0] 4 = Some r
        \<and> FLATLINE_ABS_MAX_THRESHOLD sampleConfig \<le> absMax (debugMetrics r)
        \<and> rms (debugMetrics r) < FLATLINE_RMS_THRESHOLD sampleConfig
        \<and> reason r \<noteq> Flatline)
   \<and> map_option (\<lambda>r. (decision r, reason r))
        (analyzePcmForSpeechGate sampleConfig (replicate 32000 0) 16000) = Some (REJECT, Flatline)"
proof -
  let ?m = "\<lparr> rms = 1 / 80, absMax = 1 / 40, clipRatio = 0, speechRatio = 0,
               firstSpeechMs = None, lastSpeechMs = None \<rparr> :: DebugMetrics"
  let ?r = "gateDecision sampleConfig ?m"
  have d: "debugMetrics ?r = ?m" by (rule debugMetrics_gateDecision)
  have p: "FLATLINE_ABS_MAX_THRESHOLD sampleConfig \<le> absMax (debugMetrics ?r)"
    and q: "rms (debugMetrics ?r) < FLATLINE_RMS_THRESHOLD sampleConfig"
    unfolding d by (simp_all add: sampleConfig_def)
  have c: "0 < FRAME_SIZE sampleConfig \<and> 0 < GATE_TARGET_SAMPLE_COUNT sampleConfig
       \<and> 0 < GATE_TARGET_SAMPLE_RATE sampleConfig
       \<and> 0 < FLATLINE_ABS_MAX_THRESHOLD sampleConfig \<and> 0 < FLATLINE_RMS_THRESHOLD sampleConfig"
    by (simp add: sampleConfig_def)
  from flatline_needs_peak_and_rms
         [of sampleConfig "[1 / 40, 1 / 40, 0, 0, 0, 0, 0, 0]" 4 ?r] transient_analyze p
  have "reason ?r \<noteq> Flatline" by blast
  moreover from flatline_needs_peak_and_rms [of sampleConfig "[]" 16000 ?r] c
  have "map_option (\<lambda>r. (decision r, reason r))
        (analyzePcmForSpeechGate sampleConfig (replicate 32000 0) 16000) = Some (REJECT, Flatline)"
    by blast
  ultimately show ?thesis using transient_analyze p q by blast
qed

text \<open>
  Claim C10. With positive frame size, target sample count and target rate, the gate returns a
  result for every sample array (the empty one included) and every sample rate (zero and negative
  ones included), and no division by zero occurs: the samples are first brought to the target
  count, which is the divisor of the RMS; a rate that is not positive is replaced by the target
  rate; and the speech ratio is 0 when there is no frame.
\<close>

theorem gate_total:
  assumes "0 < FRAME_SIZE cfg" "0 < GATE_TARGET_SAMPLE_COUNT cfg" "0 < GATE_TARGET_SAMPLE_RATE cfg"
  shows "(\<exists>r. analyzePcmForSpeechGate cfg samples rate = Some r)
       \<and> length (normalizePcmLength cfg samples) = GATE_TARGET_SAMPLE_COUNT cfg
       \<and> 0 < length (normalizePcmLength cfg samples)
       \<and> (rate \<le> 0 \<longrightarrow>
            analyzePcmForSpeechGate cfg samples rate
              = analyzePcmForSpeechGate cfg samples (GATE_TARGET_SAMPLE_RATE cfg))
       \<and> (GATE_TARGET_SAMPLE_COUNT cfg < FRAME_SIZE cfg \<longrightarrow>
            (\<forall>r. analyzePcmForSpeechGate cfg samples rate = Some r
                  \<longrightarrow> speechRatio (debugMetrics r) = 0))"
proof (intro conjI impI allI)
  from gateMetrics_Some [OF assms] obtain m where "gateMetrics cfg samples rate = Some m" by blast
  then show "\<exists>r. analyzePcmForSpeechGate cfg samples rate = Some r"
    by (simp add: analyzePcmForSpeechGate_def)
  show "length (normalizePcmLength cfg samples) = GATE_TARGET_SAMPLE_COUNT cfg"
    by (rule length_normalizePcmLength)
  show "0 < length (normalizePcmLength cfg samples)"
    using assms(2) by (simp add: length_normalizePcmLength)
next
  assume "rate \<le> 0"
  with assms(3) have "gateMetrics cfg samples rate
      = gateMetrics cfg samples (GATE_TARGET_SAMPLE_RATE cfg)"
    by (simp add: gateMetrics_def)
  then show "analyzePcmForSpeechGate cfg samples rate
              = analyzePcmForSpeechGate cfg samples (GATE_TARGET_SAMPLE_RATE cfg)"
    by (simp add: analyzePcmForSpeechGate_def)
next
  fix r
  assume lt: "GATE_TARGET_SAMPLE_COUNT cfg < FRAME_SIZE cfg"
    and a: "analyzePcmForSpeechGate cfg samples rate = Some r"
  from a obtain m where m: "gateMetrics cfg samples rate = Some m" "debugMetrics r = m"
    by (rule analyze_SomeD)
  from m(1) lt have "speechRatio m = 0"
    unfolding gateMetrics_def Let_def
    by (auto simp: bind_eq_Some_conv jsDivide_def case_prod_beta length_normalizePcmLength
          floor_divide_of_nat_eq split: if_splits)
  then show "speechRatio (debugMetrics r) = 0" by (simp add: m(2))
qed

theorem gate_total_witness:
  "(\<exists>r. analyzePcmForSpeechGate sampleConfig [] (- 1) = Some r)
   \<and> analyzePcmForSpeechGate sampleConfig [] (- 1) = analyzePcmForSpeechGate sampleConfig [] 4
   \<and> (\<exists>r. analyzePcmForSpeechGate (sampleConfig\<lparr>FRAME_SIZE := 16\<rparr>) [] 0 = Some r
           \<and> speechRatio (debugMetrics r) = 0)"
proof -
  have c: "0 < FRAME_SIZE sampleConfig" "0 < GATE_TARGET_SAMPLE_COUNT sampleConfig"
    "0 < GATE_TARGET_SAMPLE_RATE sampleConfig"
    by (simp_all add: sampleConfig_def)
  have c': "0 < FRAME_SIZE (sampleConfig\<lparr>FRAME_SIZE := 16\<rparr>)"
    "0 < GATE_TARGET_SAMPLE_COUNT (sampleConfig\<lparr>FRAME_SIZE := 16\<rparr>)"
    "0 < GATE_TARGET_SAMPLE_RATE (sampleConfig\<lparr>FRAME_SIZE := 16\<rparr>)"
    "GATE_TARGET_SAMPLE_COUNT (sampleConfig\<lparr>FRAME_SIZE := 16\<rparr>)
       < FRAME_SIZE (sampleConfig\<lparr>FRAME_SIZE := 16\<rparr>)"
    by (simp_all add: sampleConfig_def)
  have t: "GATE_TARGET_SAMPLE_RATE sampleConfig = 4" by (simp add: sampleConfig_def)
  have n: "(- 1 :: real) \<le> 0" by simp
  from gate_total [OF c, of "[]" "- 1"] n
  have "(\<exists>r. analyzePcmForSpeechGate sampleConfig [] (- 1) = Some r)
      \<and> analyzePcmForSpeechGate sampleConfig [] (- 1) = analyzePcmForSpeechGate sampleConfig [] 4"
    unfolding t by blast
  moreover from gate_total [OF c'(1-3), of "[]" 0] c'(4)
  have "\<exists>r. analyzePcmForSpeechGate (sampleConfig\<lparr>FRAME_SIZE := 16\<rparr>) [] 0 = Some r
           \<and> speechRatio (debugMetrics r) = 0"
    by blast
  ultimately show ?thesis by blast
qed

section \<open>Properties of the capture session\<close>

lemma elapsedMs_clear [simp]:
  "elapsedMs (clearTimer s) = elapsedMs s"
  "elapsedMs (clearAutoStop s) = elapsedMs s"
  "elapsedMs (clearAudioUrl s) = elapsedMs s"
  "elapsedMs (stopAndReleaseStream target s) = elapsedMs s"
  "elapsedMs (stopRecorderSafely s) = elapsedMs s"
  by (simp_all add: clearTimer_def clearAutoStop_def clearAudioUrl_def stopAndReleaseStream_def
        stopRecorderSafely_def split: option.splits)

lemma elapsedMs_startFailed [simp]: "elapsedMs (startFailed e s) = elapsedMs s"
  by (simp add: startFailed_def)

lemma elapsedMs_requestMicAccess:
  "elapsedMs (snd (requestMicAccess env s)) = elapsedMs s"
  by (simp add: requestMicAccess_def Let_def split: MicOutcome.splits)

lemma elapsedMs_beginRecording: "elapsedMs (beginRecording env st s) = 0"
  by (simp add: beginRecording_def Let_def split: option.splits)

lemma elapsedMs_startRecording:
  "elapsedMs (startRecording env s) = elapsedMs s \<or> elapsedMs (startRecording env s) = 0"
proof (cases "stream s")
  case None
  obtain a s1 where r: "requestMicAccess env s = (a, s1)" by (cases "requestMicAccess env s")
  with elapsedMs_requestMicAccess [of env s] have "elapsedMs s1 = elapsedMs s" by simp
  with None r show ?thesis
    by (simp add: startRecording_def elapsedMs_beginRecording split: option.splits)
next
  case (Some st)
  then show ?thesis
    by (simp add: startRecording_def elapsedMs_beginRecording)
qed

lemma elapsedMs_timerTick:
  "elapsedMs (timerTick maxDurationMs now s) =
     (case startedAt s of
        None \<Rightarrow> elapsedMs s
      | Some t \<Rightarrow> if timerArmed s \<and> t \<noteq> 0 then min (now - t) maxDurationMs else elapsedMs s)"
  by (simp add: timerTick_def Let_def split: option.splits)

lemma elapsedMs_autoStopFired:
  "elapsedMs (autoStopFired maxDurationMs s) = (if autoStopArmed s then maxDurationMs else elapsedMs s)"
  by (simp add: autoStopFired_def)

lemma sessionStep_bounded:
  assumes "0 \<le> maxDurationMs" "elapsedMs s \<le> maxDurationMs"
  shows "elapsedMs (sessionStep maxDurationMs s ev) \<le> maxDurationMs"
proof (cases ev)
  case (Start env)
  with assms elapsedMs_startRecording [of env s] show ?thesis by auto
next
  case (Tick now)
  with assms show ?thesis by (simp add: elapsedMs_timerTick split: option.splits)
next
  case AutoStop
  with assms show ?thesis by (simp add: elapsedMs_autoStopFired)
qed

lemma sessionRun_bounded:
  assumes "0 \<le> maxDurationMs" "elapsedMs s \<le> maxDurationMs"
  shows "elapsedMs (sessionRun maxDurationMs s events) \<le> maxDurationMs"
  using assms(2) unfolding sessionRun_def
proof (induction events arbitrary: s)
  case Nil
  then show ?case by simp
next
  case (Cons ev evs)
  from sessionStep_bounded [OF assms(1) Cons.prems]
  have "elapsedMs (sessionStep maxDurationMs s ev) \<le> maxDurationMs" .
  from Cons.IH [OF this] show ?case by simp
qed

text \<open>
  Claim C7. The reported elapsed time never exceeds \<open>maxDurationMs\<close>: a tick of the interval sets
  it to \<open>min (now - startedAt) maxDurationMs\<close> (to \<open>maxDurationMs\<close> itself once the clock has run
  past the maximum) or leaves it alone, the auto-stop sets it to exactly \<open>maxDurationMs\<close>, and so
  both keep it within the bound. With the reset to 0 at the start of a recording (and a maximum
  that is not negative) the bound holds after every run of starts, ticks and auto-stops.
\<close>

theorem elapsed_never_exceeds_max:
  "elapsedMs (timerTick maxDurationMs now s) =
     (case startedAt s of
        None \<Rightarrow> elapsedMs s
      | Some t \<Rightarrow> if timerArmed s \<and> t \<noteq> 0 then min (now - t) maxDurationMs else elapsedMs s)
   \<and> (timerArmed s \<and> startedAt s = Some t \<and> t \<noteq> 0 \<and> maxDurationMs < now - t \<longrightarrow>
        elapsedMs (timerTick maxDurationMs now s) = maxDurationMs)
   \<and> elapsedMs (autoStopFired maxDurationMs s)
        = (if autoStopArmed s then maxDurationMs else elapsedMs s)
   \<and> (elapsedMs s \<le> maxDurationMs \<longrightarrow>
        elapsedMs (timerTick maxDurationMs now s) \<le> maxDurationMs
        \<and> elapsedMs (autoStopFired maxDurationMs s) \<le> maxDurationMs)
   \<and> (0 \<le> maxDurationMs \<and> elapsedMs s \<le> maxDurationMs \<longrightarrow>
        elapsedMs (sessionRun maxDurationMs s events) \<le> maxDurationMs)"
proof (intro conjI impI)
  show "elapsedMs (timerTick maxDurationMs now s) =
     (case startedAt s of
        None \<Rightarrow> elapsedMs s
      | Some t \<Rightarrow> if timerArmed s \<and> t \<noteq> 0 then min (now - t) maxDurationMs else elapsedMs s)"
    by (rule elapsedMs_timerTick)
  show "elapsedMs (autoStopFired maxDurationMs s)
        = (if autoStopArmed s then maxDurationMs else elapsedMs s)"
    by (rule elapsedMs_autoStopFired)
next
  assume "timerArmed s \<and> startedAt s = Some t \<and> t \<noteq> 0 \<and> maxDurationMs < now - t"
  then show "elapsedMs (timerTick maxDurationMs now s) = maxDurationMs"
    by (simp add: elapsedMs_timerTick)
next
  assume b: "elapsedMs s \<le> maxDurationMs"
  then show "elapsedMs (timerTick maxDurationMs now s) \<le> maxDurationMs"
    by (simp add: elapsedMs_timerTick split: option.splits)
  from b show "elapsedMs (autoStopFired maxDurationMs s) \<le> maxDurationMs"
    by (simp add: elapsedMs_autoStopFired)
next
  assume "0 \<le> maxDurationMs \<and> elapsedMs s \<le> maxDurationMs"
  then show "elapsedMs (sessionRun maxDurationMs s events) \<le> maxDurationMs"
    by (simp add: sessionRun_bounded)
qed

theorem elapsed_never_exceeds_max_witness:
  "elapsedMs (timerTick 2000 3500 recordingSession) = 2000
   \<and> elapsedMs (timerTick 2000 1900 recordingSession) = 900
   \<and> elapsedMs (autoStopFired 2000 recordingSession) = 2000
   \<and> elapsedMs (sessionRun 2000 initialSession
                  [Start sampleRecorderEnv, Tick 1100, Tick 3500, AutoStop, Tick 3600]) \<le> 2000"
  using elapsed_never_exceeds_max
          [of 2000 3500 recordingSession 1000
              "[Start sampleRecorderEnv, Tick 1100, Tick 3500, AutoStop, Tick 3600]"]
    elapsed_never_exceeds_max [of 2000 1900 recordingSession 1000 "[]"]
    elapsed_never_exceeds_max
          [of 2000 0 initialSession 0
              "[Start sampleRecorderEnv, Tick 1100, Tick 3500, AutoStop, Tick 3600]"]
  by (simp add: recordingSession_def initialSession_def)

text \<open>
  Claim C8. While the status is \<open>Requesting\<close> or \<open>Recording\<close>, \<^verbatim>\<open>startRecording\<close> returns at once:
  the session is left as it was, so the status, the elapsed time, the chunks, the blob, the URL,
  the gate result, the error name and the recorder are unchanged.
\<close>

theorem start_while_busy_is_noop:
  assumes "status s = Requesting \<or> status s = Recording"
  shows "startRecording env s = s
       \<and> status (startRecording env s) = status s
       \<and> elapsedMs (startRecording env s) = elapsedMs s
       \<and> chunks (startRecording env s) = chunks s
       \<and> audioBlob (startRecording env s) = audioBlob s
       \<and> audioUrl (startRecording env s) = audioUrl s
       \<and> gateResult (startRecording env s) = gateResult s
       \<and> errorName (startRecording env s) = errorName s
       \<and> mediaRecorder (startRecording env s) = mediaRecorder s"
proof -
  from assms have "startRecording env s = s" by (auto simp: startRecording_def)
  then show ?thesis by simp
qed

lemma start_when_ready:
  "startRecording sampleRecorderEnv (initialSession\<lparr> status := Ready, stream := Some 7 \<rparr>)
     = initialSession\<lparr> status := Recording, stream := Some 7,
                       mediaRecorder := Some \<lparr> recorderStream = 7, active = True \<rparr>,
                       timerArmed := True, autoStopArmed := True, startedAt := Some 1000 \<rparr>"
  by (simp add: startRecording_def beginRecording_def sampleRecorderEnv_def initialSession_def
        clearTimer_def clearAutoStop_def clearAudioUrl_def Let_def)

theorem start_while_busy_is_noop_witness:
  "startRecording sampleRecorderEnv recordingSession = recordingSession
   \<and> chunks (startRecording sampleRecorderEnv recordingSession) = [[1, 2], [3]]
   \<and> startRecording sampleRecorderEnv (initialSession\<lparr> status := Requesting \<rparr>)
       = initialSession\<lparr> status := Requesting \<rparr>"
  using start_while_busy_is_noop [of recordingSession sampleRecorderEnv]
    start_while_busy_is_noop [of "initialSession\<lparr> status := Requesting \<rparr>" sampleRecorderEnv]
  by (simp add: recordingSession_def)

end
